theory Spec2Isabelle
  imports Complex_Main
begin

section \<open>Python strings and values\<close>

text \<open>
  The module \<^verbatim>\<open>pyrocko/util.py\<close> is Python 2 code. Its byte strings are modelled as
  \<^typ>\<open>string\<close>, its unbounded integers as \<^typ>\<open>int\<close>. A Python float is modelled by
  the rational number it denotes (every finite double is a rational); the three float
  operations of the module (\<^verbatim>\<open>math.floor(t)\<close>, \<^verbatim>\<open>t - ts\<close>, adding an integer epoch) are
  taken exactly. Infinities and NaN have no counterpart in the model.
\<close>

datatype pyval = PNone | PStr string | PInt int | PFloat rat

text \<open>
  The exceptions that the three functions can raise. \<open>FractionalSecondsMissing\<close> carries the
  two strings of its message, \<open>IndexError\<close> the message of the interpreter,
  \<open>KeyError\<close> the missing key, and \<open>SeisanResponseFileError\<close> the three arguments
  that \<^verbatim>\<open>unpack_fixed\<close> formats into its message (the class itself is declared
  outside this module).
\<close>

datatype error =
    FractionalSecondsMissing string string
  | ValueError
  | TypeError
  | IndexError string
  | KeyError char
  | SeisanResponseFileError int int string

text \<open>Slice bounds as Python clamps them: a negative bound counts from the end.\<close>

definition py_index :: "nat \<Rightarrow> int \<Rightarrow> nat" where
  "py_index n i = (if i < 0 then nat (max 0 (int n + i)) else min n (nat i))"

text \<open>\<^verbatim>\<open>xs[i:j]\<close>, \<^verbatim>\<open>xs[i:]\<close> and \<^verbatim>\<open>xs[:j]\<close>.\<close>

definition slice :: "'a list \<Rightarrow> int \<Rightarrow> int \<Rightarrow> 'a list" where
  "slice xs i j =
     (let a = py_index (length xs) i; b = py_index (length xs) j
      in take (b - a) (drop a xs))"

definition slice_from :: "'a list \<Rightarrow> int \<Rightarrow> 'a list" where
  "slice_from xs i = drop (py_index (length xs) i) xs"

definition slice_to :: "'a list \<Rightarrow> int \<Rightarrow> 'a list" where
  "slice_to xs j = take (py_index (length xs) j) xs"

text \<open>\<^verbatim>\<open>s.endswith(suffix)\<close>.\<close>

definition endswith :: "string \<Rightarrow> string \<Rightarrow> bool" where
  "endswith s suffix =
     (length suffix \<le> length s \<and> drop (length s - length suffix) s = suffix)"

text \<open>\<^verbatim>\<open>s.rfind(c)\<close> for a one-character \<open>c\<close>: the highest index of \<open>c\<close>, or \<open>-1\<close>.\<close>

fun rfind :: "string \<Rightarrow> char \<Rightarrow> int" where
  "rfind [] c = - 1"
| "rfind (x # xs) c =
     (let r = rfind xs c
      in if r \<noteq> - 1 then r + 1 else if x = c then 0 else - 1)"

text \<open>
  \<^verbatim>\<open>s.strip()\<close> on a byte string removes the six ASCII whitespace characters from
  both ends; \<^verbatim>\<open>s.rstrip('?')\<close> removes every trailing question mark.
\<close>

definition isspace :: "char \<Rightarrow> bool" where
  "isspace c = (c \<in> set [CHR '' '', CHR 0x09, CHR 0x0A, CHR 0x0B, CHR 0x0C, CHR 0x0D])"

definition isdigit :: "char \<Rightarrow> bool" where
  "isdigit c = (c \<in> set ''0123456789'')"

definition lstrip :: "string \<Rightarrow> string" where
  "lstrip s = dropWhile isspace s"

definition rstrip :: "string \<Rightarrow> string" where
  "rstrip s = rev (dropWhile isspace (rev s))"

definition strip :: "string \<Rightarrow> string" where
  "strip s = rstrip (lstrip s)"

definition rstrip_char :: "char \<Rightarrow> string \<Rightarrow> string" where
  "rstrip_char c s = rev (dropWhile (\<lambda>x. x = c) (rev s))"

text \<open>\<^verbatim>\<open>s.split(sep)\<close> for a one-character separator: never an empty list.\<close>

fun py_split :: "string \<Rightarrow> char \<Rightarrow> string list" where
  "py_split [] sep = [[]]"
| "py_split (c # cs) sep =
     (if c = sep then [] # py_split cs sep
      else (case py_split cs sep of
              w # ws \<Rightarrow> (c # w) # ws
            | [] \<Rightarrow> [[c]]))"

section \<open>The standard library\<close>

text \<open>
  The functions of Python's standard library that the module calls are parameters of the
  model: \<^verbatim>\<open>float(s)\<close>, \<^verbatim>\<open>int(s)\<close>, the operator \<^verbatim>\<open>template % x\<close> on a float,
  \<^verbatim>\<open>time.strptime\<close>, \<^verbatim>\<open>calendar.timegm\<close>, \<^verbatim>\<open>time.gmtime\<close> and \<^verbatim>\<open>time.strftime\<close>.
  The type \<open>'tm\<close> stands for \<^verbatim>\<open>time.struct_time\<close>. Each function that can raise
  returns its exception on the left.
\<close>

record 'tm stdlib =
  float_str :: "string \<Rightarrow> error + rat"
  int_str :: "string \<Rightarrow> error + int"
  pct_float :: "string \<Rightarrow> rat \<Rightarrow> error + string"
  strptime :: "string \<Rightarrow> string \<Rightarrow> error + 'tm"
  timegm :: "'tm \<Rightarrow> int"
  gmtime :: "int \<Rightarrow> error + 'tm"
  strftime :: "string \<Rightarrow> 'tm \<Rightarrow> error + string"

section \<open>\<^verbatim>\<open>str_to_time\<close>\<close>

text \<open>
  The \<^verbatim>\<open>if\<close>/\<^verbatim>\<open>elif\<close> block of \<^verbatim>\<open>str_to_time\<close>: it returns the three local
  variables \<open>(format, fracsec, s)\<close> as they stand before the last line, or the exception.
\<close>

definition str_to_time_frac ::
    "('tm, 'z) stdlib_scheme \<Rightarrow> string \<Rightarrow> string \<Rightarrow> error + (string \<times> rat \<times> string)" where
  "str_to_time_frac L s format =
     (if endswith format ''.FRAC'' then
        (let dotpos = rfind s CHR ''.'' in
         if dotpos = - 1 then Inl (FractionalSecondsMissing s format)
         else
           (let format' = slice_to format (- 5) in
            case float_str L (slice_from s dotpos) of
              Inl e \<Rightarrow> Inl e
            | Inr fracsec \<Rightarrow> Inr (format', fracsec, slice_to s dotpos)))
      else if endswith format ''.OPTFRAC'' then
        (let dotpos = rfind s CHR ''.'';
             format' = slice_to format (- 8) in
         if dotpos \<noteq> - 1 \<and> length (slice_from s dotpos) > 1 then
           (case float_str L (slice_from s dotpos) of
              Inl e \<Rightarrow> Inl e
            | Inr fracsec \<Rightarrow> Inr (format', fracsec, slice_to s dotpos))
         else Inr (format', 0, slice_to s dotpos))
      else Inr (format, 0, s))"

text \<open>The whole function: the block above, then
  \<^verbatim>\<open>return calendar.timegm(time.strptime(s, format)) + fracsec\<close>.\<close>

definition str_to_time :: "('tm, 'z) stdlib_scheme \<Rightarrow> string \<Rightarrow> string \<Rightarrow> error + rat" where
  "str_to_time L s format =
     (case str_to_time_frac L s format of
        Inl e \<Rightarrow> Inl e
      | Inr (format', fracsec, s') \<Rightarrow>
          (case strptime L s' format' of
             Inl e \<Rightarrow> Inl e
           | Inr tm \<Rightarrow> Inr (of_int (timegm L tm) + fracsec)))"

section \<open>\<^verbatim>\<open>time_to_str\<close>\<close>

text \<open>
  \<^verbatim>\<open>GlobalVars.re_frac\<close> is the compiled pattern \<^verbatim>\<open>r'%.\df'\<close>: a percent sign, any
  character but a newline (the dot is not escaped), a decimal digit, the letter f.
  \<open>re_frac_search\<close> is \<^verbatim>\<open>re_frac.search(format)\<close>: the start of the leftmost match.
  The pattern is compiled once and kept; the cache does not change what is matched.
\<close>

fun re_frac_search :: "string \<Rightarrow> nat option" where
  "re_frac_search (a # b # c # d # rest) =
     (if a = CHR ''%'' \<and> b \<noteq> CHR 0x0A \<and> isdigit c \<and> d = CHR ''f'' then Some 0
      else map_option Suc (re_frac_search (b # c # d # rest)))"
| "re_frac_search _ = None"

text \<open>
  The \<^verbatim>\<open>if m:\<close> block: the new value of \<open>format\<close>. The match \<open>m.group(0)\<close> is the four
  characters at the match position; \<^verbatim>\<open>(m.group(0) % tfrac)[2:]\<close> replaces this first match
  (\<^verbatim>\<open>subn\<close> with count 1), the text taken literally.
\<close>

definition time_to_str_format ::
    "('tm, 'z) stdlib_scheme \<Rightarrow> rat \<Rightarrow> string \<Rightarrow> error + string" where
  "time_to_str_format L tfrac format =
     (case re_frac_search format of
        None \<Rightarrow> Inr format
      | Some i \<Rightarrow>
          (case pct_float L (take 4 (drop i format)) tfrac of
             Inl e \<Rightarrow> Inl e
           | Inr r \<Rightarrow> Inr (take i format @ slice_from r 2 @ drop (i + 4) format)))"

definition time_to_str :: "('tm, 'z) stdlib_scheme \<Rightarrow> rat \<Rightarrow> string \<Rightarrow> error + string" where
  "time_to_str L t format =
     (let ts = \<lfloor>t\<rfloor>;
          tfrac = t - of_int ts
      in case time_to_str_format L tfrac format of
           Inl e \<Rightarrow> Inl e
         | Inr format' \<Rightarrow>
             (case gmtime L ts of
                Inl e \<Rightarrow> Inl e
              | Inr tm \<Rightarrow> strftime L format' tm))"



section \<open>\<^verbatim>\<open>unpack_fixed\<close>\<close>

text \<open>
  A callback takes the field's text and returns a value or raises. The entries of the
  dictionary of casts are \<^verbatim>\<open>None\<close>, a function, or the string \<^verbatim>\<open>'extra'\<close>.
\<close>

type_synonym callback = "string \<Rightarrow> error + pyval"

datatype cast = NoCast | Cast callback | Extra

definition cast_table :: "('tm, 'z) stdlib_scheme \<Rightarrow> char \<Rightarrow> cast option" where
  "cast_table L typ =
     (if typ = CHR ''x'' then Some NoCast
      else if typ = CHR ''A'' then Some (Cast (\<lambda>x. Inr (PStr x)))
      else if typ = CHR ''a'' then Some (Cast (\<lambda>x. Inr (PStr (strip x))))
      else if typ = CHR ''i'' then
        Some (Cast (\<lambda>x. case int_str L x of Inl e \<Rightarrow> Inl e | Inr n \<Rightarrow> Inr (PInt n)))
      else if typ = CHR ''f'' then
        Some (Cast (\<lambda>x. case float_str L x of Inl e \<Rightarrow> Inl e | Inr r \<Rightarrow> Inr (PFloat r)))
      else if typ = CHR ''@'' then Some Extra
      else None)"

text \<open>
  The local variables of the loop (\<open>vals\<close> is the list \<^verbatim>\<open>values\<close>). \<open>invoked\<close> is not a variable of the source: it records
  the effect of calling a callback, as the list of the indices into \<open>callargs\<close> of the
  callbacks called so far.
\<close>

record ustate =
  ipos :: int
  vals :: "pyval list"
  icall :: nat
  invoked :: "nat list"

text \<open>One iteration of the \<^verbatim>\<open>for form in format.split(',')\<close> loop.\<close>

definition unpack_field ::
    "('tm, 'z) stdlib_scheme \<Rightarrow> string \<Rightarrow> callback list \<Rightarrow> ustate \<Rightarrow> string \<Rightarrow> error + ustate" where
  "unpack_field L line callargs st form0 =
     (if form0 = [] then Inl (IndexError ''string index out of range'')
      else
        (let optional = (last form0 = CHR ''?'');
             form = rstrip_char CHR ''?'' form0
         in if form = [] then Inl (IndexError ''string index out of range'')
            else
              (let typ = hd form in
               case int_str L (tl form) of
                 Inl e \<Rightarrow> Inl e
               | Inr l \<Rightarrow>
                   (let s = slice line (ipos st) (ipos st + l) in
                    case cast_table L typ of
                      None \<Rightarrow> Inl (KeyError typ)
                    | Some Extra \<Rightarrow>
                        if icall st < length callargs then
                          (if optional \<and> strip s = [] then
                             Inr (st\<lparr>ipos := ipos st + l, vals := vals st @ [PNone],
                                     icall := icall st + 1\<rparr>)
                           else
                             (case (callargs ! icall st) s of
                                Inl e \<Rightarrow> Inl (SeisanResponseFileError (ipos st) (ipos st + 1) line)
                              | Inr v \<Rightarrow>
                                  Inr (st\<lparr>ipos := ipos st + l, vals := vals st @ [v],
                                          icall := icall st + 1,
                                          invoked := invoked st @ [icall st]\<rparr>)))
                        else Inl (IndexError ''tuple index out of range'')
                    | Some (Cast f) \<Rightarrow>
                        if optional \<and> strip s = [] then
                          Inr (st\<lparr>ipos := ipos st + l, vals := vals st @ [PNone]\<rparr>)
                        else
                          (case f s of
                             Inl e \<Rightarrow> Inl (SeisanResponseFileError (ipos st) (ipos st + 1) line)
                           | Inr v \<Rightarrow> Inr (st\<lparr>ipos := ipos st + l, vals := vals st @ [v]\<rparr>))
                    | Some NoCast \<Rightarrow> Inr (st\<lparr>ipos := ipos st + l\<rparr>)))))"

fun unpack_loop ::
    "('tm, 'z) stdlib_scheme \<Rightarrow> string \<Rightarrow> callback list \<Rightarrow> ustate \<Rightarrow> string list \<Rightarrow> error + ustate" where
  "unpack_loop L line callargs st [] = Inr st"
| "unpack_loop L line callargs st (form # forms) =
     (case unpack_field L line callargs st form of
        Inl e \<Rightarrow> Inl e
      | Inr st' \<Rightarrow> unpack_loop L line callargs st' forms)"

definition unpack_init :: ustate where
  "unpack_init = \<lparr>ipos = 0, vals = [], icall = 0, invoked = []\<rparr>"

definition unpack_fixed ::
    "('tm, 'z) stdlib_scheme \<Rightarrow> string \<Rightarrow> string \<Rightarrow> callback list \<Rightarrow> error + pyval list" where
  "unpack_fixed L format line callargs =
     (case unpack_loop L line callargs unpack_init (py_split format CHR '','') of
        Inl e \<Rightarrow> Inl e
      | Inr st \<Rightarrow> Inr (vals st))"

section \<open>Field descriptors as the specification reads them\<close>

text \<open>
  The specification describes a field by its type code, its declared width and its
  optional flag, the text of a field by the widths before it, and the callback of an
  \<^verbatim>\<open>@\<close> field by the number of \<^verbatim>\<open>@\<close> fields before it. These definitions follow the
  specification's words; the theorems below compare the loop with them.
\<close>

definition form_optional :: "string \<Rightarrow> bool" where
  "form_optional form = (form \<noteq> [] \<and> last form = CHR ''?'')"

definition form_typ :: "string \<Rightarrow> char" where
  "form_typ form = hd (rstrip_char CHR ''?'' form)"

definition form_width :: "('tm, 'z) stdlib_scheme \<Rightarrow> string \<Rightarrow> int" where
  "form_width L form =
     (case int_str L (tl (rstrip_char CHR ''?'' form)) of Inl e \<Rightarrow> 0 | Inr l \<Rightarrow> l)"

definition field_start :: "('tm, 'z) stdlib_scheme \<Rightarrow> string list \<Rightarrow> nat \<Rightarrow> int" where
  "field_start L forms k = sum_list (map (form_width L) (take k forms))"

definition field_text :: "('tm, 'z) stdlib_scheme \<Rightarrow> string \<Rightarrow> string list \<Rightarrow> nat \<Rightarrow> string" where
  "field_text L line forms k =
     slice line (field_start L forms k) (field_start L forms k + form_width L (forms ! k))"

definition callbacks_before :: "string list \<Rightarrow> nat \<Rightarrow> nat" where
  "callbacks_before forms k = length (filter (\<lambda>f. form_typ f = CHR ''@'') (take k forms))"

text \<open>
  \<open>cast_value L callargs form s ic v\<close>: \<open>v\<close> is the value that the specification gives
  to a field \<open>form\<close> with text \<open>s\<close>, when \<open>ic\<close> callbacks have been consumed before it.
\<close>

definition cast_value ::
    "('tm, 'z) stdlib_scheme \<Rightarrow> callback list \<Rightarrow> string \<Rightarrow> string \<Rightarrow> nat \<Rightarrow> pyval \<Rightarrow> bool" where
  "cast_value L callargs form s ic v =
     (if form_optional form \<and> strip s = [] then v = PNone
      else if form_typ form = CHR ''A'' then v = PStr s
      else if form_typ form = CHR ''a'' then v = PStr (strip s)
      else if form_typ form = CHR ''i'' then
        (case v of PInt n \<Rightarrow> int_str L s = Inr n | _ \<Rightarrow> False)
      else if form_typ form = CHR ''f'' then
        (case v of PFloat r \<Rightarrow> float_str L s = Inr r | _ \<Rightarrow> False)
      else if form_typ form = CHR ''@'' then ic < length callargs \<and> (callargs ! ic) s = Inr v
      else False)"

definition field_value ::
    "('tm, 'z) stdlib_scheme \<Rightarrow> string \<Rightarrow> callback list \<Rightarrow> string list \<Rightarrow> nat \<Rightarrow> pyval \<Rightarrow> bool" where
  "field_value L line callargs forms k v =
     cast_value L callargs (forms ! k) (field_text L line forms k) (callbacks_before forms k) v"

text \<open>The field \<open>k\<close> is an \<^verbatim>\<open>@\<close> field whose callback is called: it is not blank and optional.\<close>

definition field_calls :: "('tm, 'z) stdlib_scheme \<Rightarrow> string \<Rightarrow> string list \<Rightarrow> nat \<Rightarrow> bool" where
  "field_calls L line forms k =
     (form_typ (forms ! k) = CHR ''@''
      \<and> \<not> (form_optional (forms ! k) \<and> strip (field_text L line forms k) = []))"

text \<open>\<^verbatim>\<open>s.upper()\<close>, for the callback of the specification's example.\<close>

definition upper :: "char \<Rightarrow> char" where
  "upper c =
     (let n = (of_char c :: nat) in if 97 \<le> n \<and> n \<le> 122 then char_of (n - 32) else c)"

section \<open>A reference instance of the library\<close>

text \<open>
  The examples of the specification are evaluated on \<open>py\<close>, an instance of the library
  written after the documented behaviour of CPython 2.7. It covers what the examples
  use: \<^verbatim>\<open>int\<close> and \<^verbatim>\<open>float\<close> on plain decimal numerals (optional sign, surrounding
  whitespace, no exponent), \<^verbatim>\<open>'%.Xf' % x\<close> (correctly rounded, ties to even), and the
  calendar functions for the directives \<^verbatim>\<open>%Y %m %d %H %M %S %%\<close> on the proleptic
  Gregorian calendar without leap seconds. On anything else the instance raises
  \<open>ValueError\<close>, which need not be what CPython does; every theorem stated for an
  arbitrary library \<open>L\<close> is independent of this instance.
\<close>

definition digit_val :: "char \<Rightarrow> nat" where
  "digit_val c = of_char c - of_char CHR ''0''"

definition nat_of_digits :: "string \<Rightarrow> nat" where
  "nat_of_digits ds = foldl (\<lambda>n c. 10 * n + digit_val c) 0 ds"

fun str_nat :: "nat \<Rightarrow> string" where
  "str_nat n =
     (if n < 10 then [''0123456789'' ! n]
      else str_nat (n div 10) @ [''0123456789'' ! (n mod 10)])"

declare str_nat.simps [simp del]

definition zfill :: "nat \<Rightarrow> string \<Rightarrow> string" where
  "zfill w s = replicate (w - length s) CHR ''0'' @ s"

definition split_sign :: "string \<Rightarrow> bool \<times> string" where
  "split_sign u =
     (case u of
        [] \<Rightarrow> (False, [])
      | c # r \<Rightarrow> if c = CHR ''-'' then (True, r) else if c = CHR ''+'' then (False, r) else (False, u))"

definition ref_int :: "string \<Rightarrow> error + int" where
  "ref_int s =
     (let (neg, ds) = split_sign (strip s)
      in if ds \<noteq> [] \<and> list_all isdigit ds
         then Inr (if neg then - int (nat_of_digits ds) else int (nat_of_digits ds))
         else Inl ValueError)"

definition ref_float :: "string \<Rightarrow> error + rat" where
  "ref_float s =
     (let (neg, body) = split_sign (strip s);
          ip = takeWhile isdigit body;
          rest = dropWhile isdigit body
      in case (case rest of [] \<Rightarrow> Some [] | c # r \<Rightarrow> if c = CHR ''.'' then Some r else None) of
           None \<Rightarrow> Inl ValueError
         | Some fp \<Rightarrow>
             if list_all isdigit fp \<and> ip @ fp \<noteq> []
             then Inr ((if neg then - 1 else 1) * of_nat (nat_of_digits (ip @ fp)) / 10 ^ length fp)
             else Inl ValueError)"

text \<open>\<^verbatim>\<open>'%.Xf' % x\<close>: \<open>x\<close> rounded to \<open>p\<close> decimals, ties to even, zero-padded.\<close>

definition round_half_even :: "rat \<Rightarrow> int" where
  "round_half_even x =
     (let n = \<lfloor>x\<rfloor>; r = x - of_int n
      in if r < 1 / 2 then n else if 1 / 2 < r then n + 1 else if even n then n else n + 1)"

definition fixed :: "nat \<Rightarrow> rat \<Rightarrow> string" where
  "fixed p x =
     (let m = nat (round_half_even (\<bar>x\<bar> * 10 ^ p))
      in (if x < 0 then ''-'' else []) @ str_nat (m div 10 ^ p)
         @ (if p = 0 then [] else ''.'' @ zfill p (str_nat (m mod 10 ^ p))))"

definition ref_pct_float :: "string \<Rightarrow> rat \<Rightarrow> error + string" where
  "ref_pct_float template x =
     (case template of
        [a, b, c, d] \<Rightarrow>
          if a = CHR ''%'' \<and> b = CHR ''.'' \<and> isdigit c \<and> d = CHR ''f'' then Inr (fixed (digit_val c) x)
          else if a = CHR ''%'' \<and> b = CHR ''%'' then Inl TypeError
          else Inl ValueError
      | _ \<Rightarrow> Inl ValueError)"


text \<open>
  The six fields of \<^verbatim>\<open>time.struct_time\<close> that \<^verbatim>\<open>calendar.timegm\<close> and the directives
  above read. Days are counted from 1970-01-01 with the usual era arithmetic
  (400 years are 146097 days).
\<close>

record struct_time =
  tm_year :: int
  tm_mon :: int
  tm_mday :: int
  tm_hour :: int
  tm_min :: int
  tm_sec :: int

definition days_from_civil :: "int \<Rightarrow> int \<Rightarrow> int \<Rightarrow> int" where
  "days_from_civil y m d =
     (let y1 = (if m \<le> 2 then y - 1 else y);
          era = y1 div 400;
          yoe = y1 - era * 400;
          doy = (153 * (if 2 < m then m - 3 else m + 9) + 2) div 5 + d - 1;
          doe = yoe * 365 + yoe div 4 - yoe div 100 + doy
      in era * 146097 + doe - 719468)"

definition civil_from_days :: "int \<Rightarrow> int \<times> int \<times> int" where
  "civil_from_days z0 =
     (let z = z0 + 719468;
          era = z div 146097;
          doe = z - era * 146097;
          yoe = (doe - doe div 1460 + doe div 36524 - doe div 146096) div 365;
          doy = doe - (365 * yoe + yoe div 4 - yoe div 100);
          mp = (5 * doy + 2) div 153;
          d = doy - (153 * mp + 2) div 5 + 1;
          m = (if mp < 10 then mp + 3 else mp - 9)
      in ((if m \<le> 2 then yoe + era * 400 + 1 else yoe + era * 400), m, d))"

definition ref_timegm :: "struct_time \<Rightarrow> int" where
  "ref_timegm tm =
     ((days_from_civil (tm_year tm) (tm_mon tm) 1 + tm_mday tm - 1) * 24 + tm_hour tm) * 3600
       + tm_min tm * 60 + tm_sec tm"

definition ref_gmtime :: "int \<Rightarrow> error + struct_time" where
  "ref_gmtime ts =
     (let (y, m, d) = civil_from_days (ts div 86400);
          r = ts mod 86400
      in Inr \<lparr>tm_year = y, tm_mon = m, tm_mday = d,
               tm_hour = r div 3600, tm_min = r mod 3600 div 60, tm_sec = r mod 60\<rparr>)"

definition two_digits :: "int \<Rightarrow> string" where
  "two_digits n = zfill 2 (str_nat (nat n))"

text \<open>
  \<^verbatim>\<open>time.strftime\<close>: Python 2 refuses a year before 1900, then the directives are
  replaced one by one and every other character is copied.
\<close>

fun strftime_fill :: "string \<Rightarrow> struct_time \<Rightarrow> error + string" where
  "strftime_fill [] tm = Inr []"
| "strftime_fill [c] tm = (if c = CHR ''%'' then Inl ValueError else Inr [c])"
| "strftime_fill (c # d # cs) tm =
     (if c = CHR ''%'' then
        (case (if d = CHR ''Y'' then Some (str_nat (nat (tm_year tm)))
               else if d = CHR ''m'' then Some (two_digits (tm_mon tm))
               else if d = CHR ''d'' then Some (two_digits (tm_mday tm))
               else if d = CHR ''H'' then Some (two_digits (tm_hour tm))
               else if d = CHR ''M'' then Some (two_digits (tm_min tm))
               else if d = CHR ''S'' then Some (two_digits (tm_sec tm))
               else if d = CHR ''%'' then Some ''%''
               else None) of
           None \<Rightarrow> Inl ValueError
         | Some w \<Rightarrow> (case strftime_fill cs tm of Inl e \<Rightarrow> Inl e | Inr r \<Rightarrow> Inr (w @ r)))
      else (case strftime_fill (d # cs) tm of Inl e \<Rightarrow> Inl e | Inr r \<Rightarrow> Inr (c # r)))"

definition ref_strftime :: "string \<Rightarrow> struct_time \<Rightarrow> error + string" where
  "ref_strftime format tm = (if tm_year tm < 1900 then Inl ValueError else strftime_fill format tm)"

text \<open>
  \<^verbatim>\<open>time.strptime\<close> compiles the format to a regular expression: a run of whitespace
  becomes \<^verbatim>\<open>\s+\<close>, a directive a group of alternatives tried in order, any other
  character itself (matched ignoring case). The expression must match a prefix of the
  text, and the match must end where the text ends.
\<close>

datatype tok = TLit char | TSpace | TDir char

function tokens :: "string \<Rightarrow> error + tok list" where
  "tokens [] = Inr []"
| "tokens (c # cs) =
     (if c = CHR ''%'' then
        (case cs of
           [] \<Rightarrow> Inl ValueError
         | d # r \<Rightarrow>
             if d \<in> set ''YmdHMS%'' then
               (case tokens r of
                  Inl e \<Rightarrow> Inl e
                | Inr ts \<Rightarrow> Inr ((if d = CHR ''%'' then TLit d else TDir d) # ts))
             else Inl ValueError)
      else if isspace c then
        (case tokens (dropWhile isspace cs) of Inl e \<Rightarrow> Inl e | Inr ts \<Rightarrow> Inr (TSpace # ts))
      else (case tokens cs of Inl e \<Rightarrow> Inl e | Inr ts \<Rightarrow> Inr (TLit c # ts)))"
  by pat_completeness auto
termination
  by (relation "measure length") (auto simp: less_Suc_eq_le length_dropWhile_le)

definition dir_alts :: "char \<Rightarrow> string list list" where
  "dir_alts d =
     (if d = CHR ''Y'' then [[''0123456789'', ''0123456789'', ''0123456789'', ''0123456789'']]
      else if d = CHR ''m'' then [[''1'', ''012''], [''0'', ''123456789''], [''123456789'']]
      else if d = CHR ''d'' then
        [[''3'', ''01''], [''12'', ''0123456789''], [''0'', ''123456789''], [''123456789''],
         ['' '', ''123456789'']]
      else if d = CHR ''H'' then [[''2'', ''0123''], [''01'', ''0123456789''], [''0123456789'']]
      else if d = CHR ''M'' then [[''012345'', ''0123456789''], [''0123456789'']]
      else if d = CHR ''S'' then
        [[''6'', ''01''], [''012345'', ''0123456789''], [''0123456789'']]
      else [])"

fun match_alt :: "string list \<Rightarrow> string \<Rightarrow> (string \<times> string) option" where
  "match_alt [] s = Some ([], s)"
| "match_alt (cls # alt) [] = None"
| "match_alt (cls # alt) (x # s) =
     (if x \<in> set cls then
        (case match_alt alt s of None \<Rightarrow> None | Some (m, r) \<Rightarrow> Some (x # m, r))
      else None)"

definition lower :: "char \<Rightarrow> char" where
  "lower c =
     (let n = (of_char c :: nat) in if 65 \<le> n \<and> n \<le> 90 then char_of (n + 32) else c)"

definition candidates :: "tok \<Rightarrow> string \<Rightarrow> (string \<times> string) list" where
  "candidates t s =
     (case t of
        TLit c \<Rightarrow> (case s of [] \<Rightarrow> [] | x # r \<Rightarrow> if lower x = lower c then [([x], r)] else [])
      | TSpace \<Rightarrow> map (\<lambda>k. (take k s, drop k s)) (rev [1 ..< Suc (length (takeWhile isspace s))])
      | TDir d \<Rightarrow> List.map_filter (\<lambda>alt. match_alt alt s) (dir_alts d))"

fun first_some :: "('a \<Rightarrow> 'b option) \<Rightarrow> 'a list \<Rightarrow> 'b option" where
  "first_some f [] = None"
| "first_some f (x # xs) = (case f x of None \<Rightarrow> first_some f xs | Some y \<Rightarrow> Some y)"

primrec match_toks ::
    "tok list \<Rightarrow> string \<Rightarrow> (char \<times> string) list \<Rightarrow> ((char \<times> string) list \<times> string) option" where
  "match_toks [] = (\<lambda>s found. Some (found, s))"
| "match_toks (t # ts) =
     (\<lambda>s found.
        first_some
          (\<lambda>(m, r). match_toks ts r (case t of TDir d \<Rightarrow> (d, m) # found | _ \<Rightarrow> found))
          (candidates t s))"

definition days_in_month :: "int \<Rightarrow> int \<Rightarrow> int" where
  "days_in_month y m = days_from_civil (if m = 12 then y + 1 else y) (if m = 12 then 1 else m + 1) 1
                         - days_from_civil y m 1"

definition field :: "(char \<times> string) list \<Rightarrow> char \<Rightarrow> int \<Rightarrow> int" where
  "field found d dflt =
     (case map_of found d of None \<Rightarrow> dflt | Some m \<Rightarrow> int (nat_of_digits (strip m)))"

definition ref_strptime :: "string \<Rightarrow> string \<Rightarrow> error + struct_time" where
  "ref_strptime s format =
     (case tokens format of
        Inl e \<Rightarrow> Inl e
      | Inr ts \<Rightarrow>
          if \<not> distinct (filter (\<lambda>t. case t of TDir d \<Rightarrow> True | _ \<Rightarrow> False) ts) then Inl ValueError
          else
            (case match_toks ts s [] of
               None \<Rightarrow> Inl ValueError
             | Some (found, rest) \<Rightarrow>
                 if rest \<noteq> [] then Inl ValueError
                 else
                   (let y = field found CHR ''Y'' 1900;
                        m = field found CHR ''m'' 1;
                        d = field found CHR ''d'' 1
                    in if y < 1 \<or> days_in_month y m < d then Inl ValueError
                       else Inr \<lparr>tm_year = y, tm_mon = m, tm_mday = d,
                                tm_hour = field found CHR ''H'' 0,
                                tm_min = field found CHR ''M'' 0,
                                tm_sec = field found CHR ''S'' 0\<rparr>)))"

definition py :: "struct_time stdlib" where
  "py = \<lparr>float_str = ref_float, int_str = ref_int, pct_float = ref_pct_float,
         strptime = ref_strptime, timegm = ref_timegm, gmtime = ref_gmtime,
         strftime = ref_strftime\<rparr>"

section \<open>Properties of \<^verbatim>\<open>str_to_time\<close>\<close>

lemma rfind_absent: "c \<notin> set s \<Longrightarrow> rfind s c = - 1"
  by (induction s) (auto simp: Let_def)


lemma endswith_append: "endswith (base @ suffix) suffix"
  by (simp add: endswith_def)

lemma optfrac_not_frac: "\<not> endswith (base @ ''.OPTFRAC'') ''.FRAC''"
  by (simp add: endswith_def)

lemma slice_to_strip_suffix:
  "suffix \<noteq> [] \<Longrightarrow> slice_to (base @ suffix) (- int (length suffix)) = base"
  by (simp add: slice_to_def py_index_def)

lemma slice_to_minus_one: "slice_to s (- 1) = butlast s"
proof -
  have "nat (max 0 (int (length s) - 1)) = length s - 1"
    by (cases s) simp_all
  then show ?thesis
    by (simp add: slice_to_def py_index_def butlast_conv_take)
qed



lemma py_simps:
  "float_str py = ref_float" "int_str py = ref_int" "pct_float py = ref_pct_float"
  "strptime py = ref_strptime" "timegm py = ref_timegm" "gmtime py = ref_gmtime"
  "strftime py = ref_strftime"
  by (simp_all add: py_def)



text \<open>
  Claim C5. When the format ends in \<^verbatim>\<open>.FRAC\<close> and the text has no dot, \<^verbatim>\<open>str_to_time\<close>
  raises \<^verbatim>\<open>FractionalSecondsMissing\<close>, whatever the library functions do; this covers
  the text \<^verbatim>\<open>2009-01-01 00:00:00\<close> with the format \<^verbatim>\<open>%Y-%m-%d %H:%M:%S.FRAC\<close>.
\<close>

theorem str_to_time_frac_missing:
  "endswith format ''.FRAC'' \<Longrightarrow> CHR ''.'' \<notin> set s \<Longrightarrow>
     str_to_time L s format = Inl (FractionalSecondsMissing s format)"
  by (simp add: str_to_time_def str_to_time_frac_def rfind_absent)

theorem str_to_time_frac_missing_witness:
  "endswith ''%Y-%m-%d %H:%M:%S.FRAC'' ''.FRAC'' \<and>
   CHR ''.'' \<notin> set ''2009-01-01 00:00:00'' \<and>
   str_to_time py ''2009-01-01 00:00:00'' ''%Y-%m-%d %H:%M:%S.FRAC''
     = Inl (FractionalSecondsMissing ''2009-01-01 00:00:00'' ''%Y-%m-%d %H:%M:%S.FRAC'')"
  using str_to_time_frac_missing [of "''%Y-%m-%d %H:%M:%S.FRAC''" "''2009-01-01 00:00:00''" py]
  by (simp add: endswith_def)



text \<open>
  Claim C2. When the format ends in \<^verbatim>\<open>.OPTFRAC\<close> and the text has no dot, the fraction is
  0, but the text handed to \<^verbatim>\<open>strptime\<close> is \<^verbatim>\<open>s[:-1]\<close>, the text without its last
  character, since \<^verbatim>\<open>rfind\<close> has answered \<open>-1\<close>. On the reference library the text
  \<^verbatim>\<open>2009-01-01 00:00:05\<close> is read as 1230768000, five seconds early, while the plain format
  reads it as 1230768005; the text \<^verbatim>\<open>2009-01-01 00:00:00\<close> of the specification keeps its
  value only because \<^verbatim>\<open>%S\<close> accepts the single digit that is left.
\<close>

theorem str_to_time_optfrac_no_dot:
  "CHR ''.'' \<notin> set s \<Longrightarrow>
     str_to_time L s (base @ ''.OPTFRAC'') =
       (case strptime L (butlast s) base of
          Inl e \<Rightarrow> Inl e
        | Inr tm \<Rightarrow> Inr (of_int (timegm L tm)))"
  using slice_to_strip_suffix [where base = base and suffix = "''.OPTFRAC''"]
  by (simp add: str_to_time_def str_to_time_frac_def rfind_absent optfrac_not_frac
      endswith_append slice_to_minus_one split: sum.splits)

theorem str_to_time_optfrac_no_dot_witness:
  "CHR ''.'' \<notin> set ''2009-01-01 00:00:05'' \<and>
   str_to_time py ''2009-01-01 00:00:05'' ''%Y-%m-%d %H:%M:%S.OPTFRAC'' = Inr 1230768000 \<and>
   str_to_time py ''2009-01-01 00:00:05'' ''%Y-%m-%d %H:%M:%S'' = Inr 1230768005 \<and>
   str_to_time py ''2009-01-01 00:00:00'' ''%Y-%m-%d %H:%M:%S.OPTFRAC'' = Inr 1230768000"
proof -
  have nodot: "CHR ''.'' \<notin> set ''2009-01-01 00:00:05''"
    by simp
  have parsed: "strptime py (butlast ''2009-01-01 00:00:05'') ''%Y-%m-%d %H:%M:%S'' =
      Inr \<lparr>tm_year = 2009, tm_mon = 1, tm_mday = 1, tm_hour = 0, tm_min = 0, tm_sec = 0\<rparr>"
    by code_simp
  have epoch: "timegm py \<lparr>tm_year = 2009, tm_mon = 1, tm_mday = 1,
      tm_hour = 0, tm_min = 0, tm_sec = 0\<rparr> = 1230768000"
    by code_simp
  have plain: "str_to_time py ''2009-01-01 00:00:05'' ''%Y-%m-%d %H:%M:%S'' = Inr 1230768005"
    by code_simp
  have zero: "str_to_time py ''2009-01-01 00:00:00'' ''%Y-%m-%d %H:%M:%S.OPTFRAC'' = Inr 1230768000"
    by code_simp
  from str_to_time_optfrac_no_dot [OF nodot, of py "''%Y-%m-%d %H:%M:%S''"] parsed epoch
  have "str_to_time py ''2009-01-01 00:00:05'' ''%Y-%m-%d %H:%M:%S.OPTFRAC'' = Inr 1230768000"
    by simp
  with nodot plain zero show ?thesis
    by simp
qed

section \<open>Properties of \<^verbatim>\<open>time_to_str\<close>\<close>
















text \<open>
  Claim C6. The pattern that looks for the directive is \<^verbatim>\<open>%.\df\<close> with the dot unescaped,
  so the leftmost match need not be a directive \<^verbatim>\<open>%.Xf\<close>. In the format \<^verbatim>\<open>%%3f%.3f\<close>
  (a literal percent sign, the text \<^verbatim>\<open>3f\<close>, then the directive) the match is \<^verbatim>\<open>%%3f\<close>:
  that text is the template applied to the fraction, its result less two characters
  replaces it, and the directive \<^verbatim>\<open>%.3f\<close> stays in the format, for every library. On the
  reference library the call raises \<open>TypeError\<close>, as \<^verbatim>\<open>'%%3f' % x\<close> does. For the format
  \<^verbatim>\<open>%.3f\<close> alone and \<open>t = 1234567890.12345\<close> the result is \<open>''123''\<close>, as documented.
\<close>

theorem time_to_str_unescaped_dot:
  "time_to_str_format L tfrac ''%%3f%.3f'' =
     (case pct_float L ''%%3f'' tfrac of
        Inl e \<Rightarrow> Inl e
      | Inr r \<Rightarrow> Inr (slice_from r 2 @ ''%.3f'')) \<and>
   time_to_str py (123456789012345 / 100000) ''%%3f%.3f'' = Inl TypeError \<and>
   time_to_str py (123456789012345 / 100000) ''%.3f'' = Inr ''123''"
proof (intro conjI)
  have "re_frac_search ''%%3f%.3f'' = Some 0"
    by (simp add: isdigit_def)
  then show "time_to_str_format L tfrac ''%%3f%.3f'' =
     (case pct_float L ''%%3f'' tfrac of
        Inl e \<Rightarrow> Inl e
      | Inr r \<Rightarrow> Inr (slice_from r 2 @ ''%.3f''))"
    by (simp add: time_to_str_format_def split: sum.splits)
  show "time_to_str py (123456789012345 / 100000) ''%%3f%.3f'' = Inl TypeError"
    by code_simp
  show "time_to_str py (123456789012345 / 100000) ''%.3f'' = Inr ''123''"
    by code_simp
qed




section \<open>Properties of \<^verbatim>\<open>unpack_fixed\<close>\<close>

lemma unpack_field_Inr:
  assumes "unpack_field L line callargs st form = Inr st'"
  shows "ipos st' = ipos st + form_width L form"
    and "icall st' = icall st + (if form_typ form = CHR ''@'' then 1 else 0)"
    and "form_typ form = CHR ''@'' \<longrightarrow> icall st < length callargs"
    and "if form_typ form = CHR ''x'' then vals st' = vals st
         else (\<exists>v. vals st' = vals st @ [v]
                \<and> cast_value L callargs form (slice line (ipos st) (ipos st + form_width L form))
                     (icall st) v)"
    and "invoked st' = invoked st @
           (if form_typ form = CHR ''@'' \<and>
               \<not> (form_optional form \<and>
                   strip (slice line (ipos st) (ipos st + form_width L form)) = [])
            then [icall st] else [])"
  using assms
  by (auto simp: unpack_field_def cast_table_def form_width_def form_typ_def form_optional_def
      cast_value_def Let_def split: if_splits sum.splits)

lemma field_start_Suc:
  "k < length forms \<Longrightarrow> field_start L forms (Suc k) = field_start L forms k + form_width L (forms ! k)"
  by (simp add: field_start_def take_Suc_conv_app_nth)

lemma callbacks_before_Suc:
  "k < length forms \<Longrightarrow>
     callbacks_before forms (Suc k) =
       callbacks_before forms k + (if form_typ (forms ! k) = CHR ''@'' then 1 else 0)"
  by (simp add: callbacks_before_def take_Suc_conv_app_nth)

lemma unpack_loop_from:
  "unpack_loop L line callargs st (drop k forms) = Inr st' \<Longrightarrow> k \<le> length forms \<Longrightarrow>
   ipos st = field_start L forms k \<Longrightarrow> icall st = callbacks_before forms k \<Longrightarrow>
     (\<exists>ws. vals st' = vals st @ ws
        \<and> list_all2 (field_value L line callargs forms)
             (filter (\<lambda>j. form_typ (forms ! j) \<noteq> CHR ''x'') [k ..< length forms]) ws)
     \<and> invoked st' = invoked st @
           map (callbacks_before forms) (filter (field_calls L line forms) [k ..< length forms])
     \<and> ipos st' = field_start L forms (length forms)
     \<and> icall st' = callbacks_before forms (length forms)
     \<and> (callbacks_before forms k < callbacks_before forms (length forms)
           \<longrightarrow> callbacks_before forms (length forms) \<le> length callargs)"
proof (induction "length forms - k" arbitrary: k st)
  case 0
  then show ?case by simp
next
  case (Suc n)
  from Suc.hyps(2) have klt: "k < length forms" by simp
  then have dr: "drop k forms = forms ! k # drop (Suc k) forms"
    by (simp add: Cons_nth_drop_Suc)
  from Suc.prems(1) dr obtain st1 where
    step: "unpack_field L line callargs st (forms ! k) = Inr st1"
    and rest: "unpack_loop L line callargs st1 (drop (Suc k) forms) = Inr st'"
    by (auto split: sum.splits)
  note f = unpack_field_Inr [OF step]
  have sl: "slice line (ipos st) (ipos st + form_width L (forms ! k)) = field_text L line forms k"
    using Suc.prems(3) by (simp add: field_text_def)
  have pos1: "ipos st1 = field_start L forms (Suc k)"
    using f(1) Suc.prems(3) klt by (simp add: field_start_Suc)
  have ic1: "icall st1 = callbacks_before forms (Suc k)"
    using f(2) Suc.prems(4) klt by (simp add: callbacks_before_Suc)
  have n1: "n = length forms - Suc k" using Suc.hyps(2) by simp
  have k1: "Suc k \<le> length forms" using klt by simp
  from Suc.hyps(1) [OF n1 rest k1 pos1 ic1] obtain ws where
    ih_vals: "vals st' = vals st1 @ ws"
    and ih_all: "list_all2 (field_value L line callargs forms)
        (filter (\<lambda>j. form_typ (forms ! j) \<noteq> CHR ''x'') [Suc k ..< length forms]) ws"
    and ih_inv: "invoked st' = invoked st1 @
        map (callbacks_before forms) (filter (field_calls L line forms) [Suc k ..< length forms])"
    and ih_pos: "ipos st' = field_start L forms (length forms)"
    and ih_ic: "icall st' = callbacks_before forms (length forms)"
    and ih_le: "callbacks_before forms (Suc k) < callbacks_before forms (length forms)
           \<longrightarrow> callbacks_before forms (length forms) \<le> length callargs"
    by blast
  have upt: "[k ..< length forms] = k # [Suc k ..< length forms]"
    using klt by (simp add: upt_conv_Cons)
  have vals: "\<exists>ws. vals st' = vals st @ ws
        \<and> list_all2 (field_value L line callargs forms)
             (filter (\<lambda>j. form_typ (forms ! j) \<noteq> CHR ''x'') [k ..< length forms]) ws"
  proof (cases "form_typ (forms ! k) = CHR ''x''")
    case True
    with f(4) ih_vals ih_all upt show ?thesis by simp
  next
    case False
    with f(4) sl obtain v where v: "vals st1 = vals st @ [v]"
      and cv: "field_value L line callargs forms k v"
      using Suc.prems(4) by (auto simp: field_value_def)
    have "vals st' = vals st @ (v # ws)" using v ih_vals by simp
    moreover have "list_all2 (field_value L line callargs forms)
             (filter (\<lambda>j. form_typ (forms ! j) \<noteq> CHR ''x'') [k ..< length forms]) (v # ws)"
      using False cv ih_all upt by simp
    ultimately show ?thesis by blast
  qed
  have inv: "invoked st' = invoked st @
           map (callbacks_before forms) (filter (field_calls L line forms) [k ..< length forms])"
    using f(5) sl ih_inv upt Suc.prems(4) by (simp add: field_calls_def)
  have le: "callbacks_before forms k < callbacks_before forms (length forms)
           \<longrightarrow> callbacks_before forms (length forms) \<le> length callargs"
  proof
    assume lt: "callbacks_before forms k < callbacks_before forms (length forms)"
    show "callbacks_before forms (length forms) \<le> length callargs"
    proof (cases "callbacks_before forms (Suc k) < callbacks_before forms (length forms)")
      case True
      with ih_le show ?thesis by simp
    next
      case False
      with lt klt have at: "form_typ (forms ! k) = CHR ''@''"
        and eq: "callbacks_before forms (length forms) = Suc (callbacks_before forms k)"
        by (auto simp: callbacks_before_Suc split: if_splits)
      from f(3) at Suc.prems(4) have "callbacks_before forms k < length callargs" by simp
      with eq show ?thesis by simp
    qed
  qed
  from vals inv ih_pos ih_ic le show ?case by blast
qed

lemma rstrip_char_nonempty: "rstrip_char c form = x # w \<Longrightarrow> form \<noteq> []"
  by (auto simp: rstrip_char_def)

lemma unpack_field_parsed:
  assumes "rstrip_char CHR ''?'' form = typ # w" and "int_str L w = Inr l"
  shows "unpack_field L line callargs st form =
     (case cast_table L typ of
        None \<Rightarrow> Inl (KeyError typ)
      | Some NoCast \<Rightarrow> Inr (st\<lparr>ipos := ipos st + l\<rparr>)
      | Some (Cast f) \<Rightarrow>
          if form_optional form \<and> strip (slice line (ipos st) (ipos st + l)) = [] then
            Inr (st\<lparr>ipos := ipos st + l, vals := vals st @ [PNone]\<rparr>)
          else
            (case f (slice line (ipos st) (ipos st + l)) of
               Inl e \<Rightarrow> Inl (SeisanResponseFileError (ipos st) (ipos st + 1) line)
             | Inr v \<Rightarrow> Inr (st\<lparr>ipos := ipos st + l, vals := vals st @ [v]\<rparr>))
      | Some Extra \<Rightarrow>
          if icall st < length callargs then
            (if form_optional form \<and> strip (slice line (ipos st) (ipos st + l)) = [] then
               Inr (st\<lparr>ipos := ipos st + l, vals := vals st @ [PNone], icall := icall st + 1\<rparr>)
             else
               (case (callargs ! icall st) (slice line (ipos st) (ipos st + l)) of
                  Inl e \<Rightarrow> Inl (SeisanResponseFileError (ipos st) (ipos st + 1) line)
                | Inr v \<Rightarrow>
                    Inr (st\<lparr>ipos := ipos st + l, vals := vals st @ [v], icall := icall st + 1,
                            invoked := invoked st @ [icall st]\<rparr>)))
          else Inl (IndexError ''tuple index out of range''))"
proof -
  from assms(1) have ne: "form \<noteq> []" by (rule rstrip_char_nonempty)
  show ?thesis
    unfolding unpack_field_def Let_def
    by (auto simp add: ne assms form_optional_def split: option.splits cast.splits)
qed

lemma cast_table_simps:
  "cast_table L CHR ''@'' = Some Extra"
  "cast_table L CHR ''x'' = Some NoCast"
  "cast_table L CHR ''i'' =
     Some (Cast (\<lambda>x. case int_str L x of Inl e \<Rightarrow> Inl e | Inr n \<Rightarrow> Inr (PInt n)))"
  "cast_table L CHR ''f'' =
     Some (Cast (\<lambda>x. case float_str L x of Inl e \<Rightarrow> Inl e | Inr r \<Rightarrow> Inr (PFloat r)))"
  by (simp_all add: cast_table_def)

lemma unpack_field_exhausted:
  "rstrip_char CHR ''?'' form = CHR ''@'' # w \<Longrightarrow> int_str L w = Inr l \<Longrightarrow>
   length callargs \<le> icall st \<Longrightarrow>
     unpack_field L line callargs st form = Inl (IndexError ''tuple index out of range'')"
  by (simp add: unpack_field_parsed cast_table_simps)

lemma unpack_loop_ipos:
  "unpack_loop L line callargs st forms = Inr st' \<Longrightarrow>
     ipos st' = ipos st + sum_list (map (form_width L) forms)"
proof (induction forms arbitrary: st)
  case Nil
  then show ?case by simp
next
  case (Cons form forms)
  from Cons.prems obtain st1 where
    step: "unpack_field L line callargs st form = Inr st1"
    and rest: "unpack_loop L line callargs st1 forms = Inr st'"
    by (auto split: sum.splits)
  from Cons.IH [OF rest] unpack_field_Inr(1) [OF step] show ?case
    by simp
qed

lemma callbacks_before_mono:
  "i \<le> j \<Longrightarrow> callbacks_before forms i \<le> callbacks_before forms j"
proof -
  assume "i \<le> j"
  then obtain d where j: "j = i + d" using le_Suc_ex by blast
  show ?thesis unfolding j callbacks_before_def by (simp add: take_add)
qed

lemma callbacks_before_strict:
  assumes "i < j" and "j \<le> length forms" and "form_typ (forms ! i) = CHR ''@''"
  shows "callbacks_before forms i < callbacks_before forms j"
proof -
  from assms have "callbacks_before forms (Suc i) = Suc (callbacks_before forms i)"
    by (simp add: callbacks_before_Suc)
  moreover have "callbacks_before forms (Suc i) \<le> callbacks_before forms j"
    using assms(1) by (intro callbacks_before_mono) simp
  ultimately show ?thesis by simp
qed

lemma invoked_increasing:
  "sorted_wrt (<) (map (callbacks_before forms)
     (filter (field_calls L line forms) [0 ..< length forms]))"
proof -
  have "sorted_wrt (\<lambda>i j. callbacks_before forms i < callbacks_before forms j)
     (filter (field_calls L line forms) [0 ..< length forms])"
    unfolding sorted_wrt_iff_nth_less
  proof (intro allI impI)
    fix a b
    let ?ks = "filter (field_calls L line forms) [0 ..< length forms]"
    assume ab: "a < b" and b: "b < length ?ks"
    have srt: "sorted_wrt (<) ?ks" by (intro sorted_wrt_filter) simp
    from ab b have lt: "?ks ! a < ?ks ! b"
      using srt by (simp add: sorted_wrt_iff_nth_less)
    from ab b have "a < length ?ks" by simp
    then have "?ks ! a \<in> set ?ks" by (rule nth_mem)
    moreover from b have "?ks ! b \<in> set ?ks" by (rule nth_mem)
    ultimately have "form_typ (forms ! (?ks ! a)) = CHR ''@''" and "?ks ! b < length forms"
      by (auto simp: field_calls_def)
    with lt show "callbacks_before forms (?ks ! a) < callbacks_before forms (?ks ! b)"
      by (intro callbacks_before_strict) simp_all
  qed
  then show ?thesis by (simp add: sorted_wrt_map)
qed

lemma unpack_init_sel:
  "ipos unpack_init = 0" "vals unpack_init = []" "icall unpack_init = 0" "invoked unpack_init = []"
  by (simp_all add: unpack_init_def)

lemma unpack_loop_init:
  assumes "unpack_loop L line callargs unpack_init forms = Inr st'"
  shows "list_all2 (field_value L line callargs forms)
           (filter (\<lambda>j. form_typ (forms ! j) \<noteq> CHR ''x'') [0 ..< length forms]) (vals st')"
    and "invoked st' =
           map (callbacks_before forms) (filter (field_calls L line forms) [0 ..< length forms])"
    and "icall st' = callbacks_before forms (length forms)"
    and "callbacks_before forms (length forms) \<le> length callargs"
proof -
  have run: "unpack_loop L line callargs unpack_init (drop 0 forms) = Inr st'"
    using assms by simp
  have zero: "callbacks_before forms 0 = 0"
    by (simp add: callbacks_before_def)
  have pos: "ipos unpack_init = field_start L forms 0"
    by (simp add: unpack_init_sel field_start_def)
  have ic: "icall unpack_init = callbacks_before forms 0"
    by (simp add: unpack_init_sel zero)
  note r = unpack_loop_from [OF run _ pos ic]
  from r obtain ws where "vals st' = vals unpack_init @ ws"
    and "list_all2 (field_value L line callargs forms)
             (filter (\<lambda>j. form_typ (forms ! j) \<noteq> CHR ''x'') [0 ..< length forms]) ws"
    by auto
  then show "list_all2 (field_value L line callargs forms)
           (filter (\<lambda>j. form_typ (forms ! j) \<noteq> CHR ''x'') [0 ..< length forms]) (vals st')"
    by (simp add: unpack_init_sel)
  from r have "invoked st' = invoked unpack_init @
      map (callbacks_before forms) (filter (field_calls L line forms) [0 ..< length forms])"
    by simp
  then show "invoked st' =
           map (callbacks_before forms) (filter (field_calls L line forms) [0 ..< length forms])"
    by (simp add: unpack_init_sel)
  from r show "icall st' = callbacks_before forms (length forms)"
    by simp
  from r have "callbacks_before forms 0 < callbacks_before forms (length forms)
           \<longrightarrow> callbacks_before forms (length forms) \<le> length callargs"
    by simp
  then show "callbacks_before forms (length forms) \<le> length callargs"
    unfolding zero by (cases "callbacks_before forms (length forms)") simp_all
qed

text \<open>
  Claim C7. When \<^verbatim>\<open>unpack_fixed\<close> returns, it returns one value for every field whose type
  is not \<^verbatim>\<open>x\<close>, in the order of the fields: the value of field \<open>k\<close> is \<open>None\<close> when the
  field is optional and its text blank, and otherwise the text itself for \<^verbatim>\<open>A\<close>, the
  stripped text for \<^verbatim>\<open>a\<close>, its integer for \<^verbatim>\<open>i\<close>, its float for \<^verbatim>\<open>f\<close>, where the text
  of the field starts at the sum of the widths before it. On the reference library the two
  examples of the specification give \<open>[''ABCD'', 42, 1.5]\<close> and \<open>[''ABCD'', 42, None]\<close>.
\<close>

theorem unpack_fixed_values:
  "unpack_fixed L format line callargs = Inr vs \<Longrightarrow>
     list_all2 (field_value L line callargs (py_split format CHR '',''))
       (filter (\<lambda>k. form_typ (py_split format CHR '','' ! k) \<noteq> CHR ''x'')
          [0 ..< length (py_split format CHR '','')])
       vs"
  using unpack_loop_init(1) [of L line callargs "py_split format CHR '',''"]
  by (auto simp: unpack_fixed_def split: sum.splits)

theorem unpack_fixed_values_witness:
  "unpack_fixed py ''A4,i2,f5?'' ''ABCD421.50'' [] = Inr [PStr ''ABCD'', PInt 42, PFloat (3 / 2)] \<and>
   unpack_fixed py ''A4,i2,f5?'' ''ABCD42     '' [] = Inr [PStr ''ABCD'', PInt 42, PNone] \<and>
   list_all2 (field_value py ''ABCD421.50'' [] [''A4'', ''i2'', ''f5?'']) [0, 1, 2]
     [PStr ''ABCD'', PInt 42, PFloat (3 / 2)] \<and>
   list_all2 (field_value py ''ABCD42     '' [] [''A4'', ''i2'', ''f5?'']) [0, 1, 2]
     [PStr ''ABCD'', PInt 42, PNone]"
proof -
  have full: "unpack_fixed py ''A4,i2,f5?'' ''ABCD421.50'' []
      = Inr [PStr ''ABCD'', PInt 42, PFloat (3 / 2)]"
    by code_simp
  have blank: "unpack_fixed py ''A4,i2,f5?'' ''ABCD42     '' []
      = Inr [PStr ''ABCD'', PInt 42, PNone]"
    by code_simp
  have forms: "py_split ''A4,i2,f5?'' CHR '','' = [''A4'', ''i2'', ''f5?'']"
    by code_simp
  have idx: "filter (\<lambda>k. form_typ ([''A4'', ''i2'', ''f5?''] ! k) \<noteq> CHR ''x'')
      [0 ..< length [''A4'', ''i2'', ''f5?'']] = [0, 1, 2]"
    by code_simp
  from unpack_fixed_values [OF full] unpack_fixed_values [OF blank] full blank
  show ?thesis
    unfolding forms idx by simp
qed

text \<open>
  Claim C8. A field that is processed moves the cursor by its declared width, whatever
  its type and whether or not it is optional, and a run over a list of fields moves it by
  the sum of their declared widths.
\<close>

theorem unpack_cursor_advance:
  "(unpack_field L line callargs st form = Inr st1 \<longrightarrow>
      ipos st1 = ipos st + form_width L form) \<and>
   (unpack_loop L line callargs st forms = Inr st2 \<longrightarrow>
      ipos st2 = ipos st + sum_list (map (form_width L) forms))"
  using unpack_field_Inr(1) [of L line callargs st form st1]
    unpack_loop_ipos [of L line callargs st forms st2]
  by blast

theorem unpack_cursor_advance_witness:
  "unpack_field py ''ABCD'' [] unpack_init ''A4''
     = Inr \<lparr>ipos = 4, vals = [PStr ''ABCD''], icall = 0, invoked = []\<rparr> \<and>
   unpack_loop py ''ABCD'' [] unpack_init [''A4'', ''x2'', ''f5?'']
     = Inr \<lparr>ipos = 11, vals = [PStr ''ABCD'', PNone], icall = 0, invoked = []\<rparr> \<and>
   form_width py ''A4'' = 4 \<and>
   sum_list (map (form_width py) [''A4'', ''x2'', ''f5?'']) = 11"
proof -
  have one: "unpack_field py ''ABCD'' [] unpack_init ''A4''
      = Inr \<lparr>ipos = 4, vals = [PStr ''ABCD''], icall = 0, invoked = []\<rparr>"
    by code_simp
  have all: "unpack_loop py ''ABCD'' [] unpack_init [''A4'', ''x2'', ''f5?'']
      = Inr \<lparr>ipos = 11, vals = [PStr ''ABCD'', PNone], icall = 0, invoked = []\<rparr>"
    by code_simp
  from unpack_cursor_advance [of py "''ABCD''" "[]" unpack_init "''A4''"
      "\<lparr>ipos = 4, vals = [PStr ''ABCD''], icall = 0, invoked = []\<rparr>"
      "[''A4'', ''x2'', ''f5?'']"
      "\<lparr>ipos = 11, vals = [PStr ''ABCD'', PNone], icall = 0, invoked = []\<rparr>"] one all
  show ?thesis
    by (simp add: unpack_init_def)
qed

text \<open>
  Claim C9. In a run that returns, the number of callbacks consumed is the number of \<^verbatim>\<open>@\<close>
  fields, the callbacks called are, in field order, those whose index is the number of
  \<^verbatim>\<open>@\<close> fields before the field, so the indices called increase strictly and no callback
  is called twice, and every value is the one its field describes. With more \<^verbatim>\<open>@\<close> fields
  than callbacks the call raises, and an \<^verbatim>\<open>@\<close> field reached with no callback left raises
  \<^verbatim>\<open>IndexError\<close> from \<^verbatim>\<open>callargs[icall]\<close>, the exception the specification calls
  CallbackExhausted. On the reference library the two examples of the specification give
  \<open>[''XYZ'']\<close> and that exception.
\<close>

theorem unpack_callbacks_in_order:
  "(unpack_loop L line callargs unpack_init forms = Inr st' \<longrightarrow>
      icall st' = callbacks_before forms (length forms)
      \<and> invoked st' =
          map (callbacks_before forms) (filter (field_calls L line forms) [0 ..< length forms])
      \<and> sorted_wrt (<) (invoked st')
      \<and> list_all2 (field_value L line callargs forms)
           (filter (\<lambda>j. form_typ (forms ! j) \<noteq> CHR ''x'') [0 ..< length forms]) (vals st'))
   \<and> (length callargs < callbacks_before (py_split format CHR '','') (length (py_split format CHR '',''))
        \<longrightarrow> (\<exists>e. unpack_fixed L format line callargs = Inl e))
   \<and> (rstrip_char CHR ''?'' form = CHR ''@'' # w \<and> int_str L w = Inr l
        \<and> length callargs \<le> icall st \<longrightarrow>
        unpack_field L line callargs st form = Inl (IndexError ''tuple index out of range''))"
proof (intro conjI impI)
  assume run: "unpack_loop L line callargs unpack_init forms = Inr st'"
  note r = unpack_loop_init [OF run]
  show "icall st' = callbacks_before forms (length forms)" by (rule r(3))
  show inv: "invoked st' =
      map (callbacks_before forms) (filter (field_calls L line forms) [0 ..< length forms])"
    by (rule r(2))
  show "sorted_wrt (<) (invoked st')"
    unfolding inv by (rule invoked_increasing)
  show "list_all2 (field_value L line callargs forms)
      (filter (\<lambda>j. form_typ (forms ! j) \<noteq> CHR ''x'') [0 ..< length forms]) (vals st')"
    by (rule r(1))
next
  let ?forms = "py_split format CHR '',''"
  assume more: "length callargs < callbacks_before ?forms (length ?forms)"
  show "\<exists>e. unpack_fixed L format line callargs = Inl e"
  proof (cases "unpack_loop L line callargs unpack_init ?forms")
    case (Inl e)
    then show ?thesis by (simp add: unpack_fixed_def)
  next
    case (Inr st')
    from unpack_loop_init(4) [OF Inr] more show ?thesis by simp
  qed
next
  assume "rstrip_char CHR ''?'' form = CHR ''@'' # w \<and> int_str L w = Inr l
    \<and> length callargs \<le> icall st"
  then show "unpack_field L line callargs st form = Inl (IndexError ''tuple index out of range'')"
    by (simp add: unpack_field_exhausted)
qed

theorem unpack_callbacks_in_order_witness:
  "unpack_fixed py ''@3'' ''xyz'' [\<lambda>s. Inr (PStr (map upper s))] = Inr [PStr ''XYZ''] \<and>
   unpack_fixed py ''@3'' ''xyz'' [] = Inl (IndexError ''tuple index out of range'') \<and>
   unpack_loop py ''xyz-ab'' [\<lambda>s. Inr (PStr (map upper s)), \<lambda>s. Inr (PStr (s @ s))]
       unpack_init [''@3'', ''x1'', ''@2'']
     = Inr \<lparr>ipos = 6, vals = [PStr ''XYZ'', PStr ''abab''], icall = 2, invoked = [0, 1]\<rparr> \<and>
   callbacks_before [''@3'', ''x1'', ''@2''] 3 = 2 \<and>
   length ([] :: callback list) < callbacks_before (py_split ''@3'' CHR '','') (length (py_split ''@3'' CHR '','')) \<and>
   unpack_field py ''xyz'' [] unpack_init ''@3'' = Inl (IndexError ''tuple index out of range'')"
proof -
  let ?up = "\<lambda>s. Inr (PStr (map upper s)) :: error + pyval"
  let ?dbl = "\<lambda>s. Inr (PStr (s @ s)) :: error + pyval"
  let ?st = "\<lparr>ipos = 6, vals = [PStr ''XYZ'', PStr ''abab''], icall = 2, invoked = [0, 1]\<rparr>"
  have ex1: "unpack_fixed py ''@3'' ''xyz'' [?up] = Inr [PStr ''XYZ'']"
    by code_simp
  have ex2: "unpack_fixed py ''@3'' ''xyz'' [] = Inl (IndexError ''tuple index out of range'')"
    by code_simp
  have run: "unpack_loop py ''xyz-ab'' [?up, ?dbl] unpack_init [''@3'', ''x1'', ''@2''] = Inr ?st"
    by code_simp
  have more: "length ([] :: callback list)
      < callbacks_before (py_split ''@3'' CHR '','') (length (py_split ''@3'' CHR '',''))"
    by code_simp
  have parsed: "rstrip_char CHR ''?'' ''@3'' = CHR ''@'' # ''3'' \<and> int_str py ''3'' = Inr 3
      \<and> length ([] :: callback list) \<le> icall unpack_init"
    by code_simp
  have cb: "callbacks_before [''@3'', ''x1'', ''@2''] 3 = 2"
    by code_simp
  from unpack_callbacks_in_order [where L = py and line = "''xyz-ab''"
      and callargs = "[?up, ?dbl]" and forms = "[''@3'', ''x1'', ''@2'']" and st' = ?st] run
  have ordered: "icall ?st = callbacks_before [''@3'', ''x1'', ''@2''] (length [''@3'', ''x1'', ''@2''])
      \<and> sorted_wrt (<) (invoked ?st)"
    by blast
  from unpack_callbacks_in_order [where L = py and line = "''xyz''" and callargs = "[]"
      and format = "''@3''" and form = "''@3''" and w = "''3''" and l = 3 and st = unpack_init]
    more parsed
  have "\<exists>e. unpack_fixed py ''@3'' ''xyz'' [] = Inl e"
    and "unpack_field py ''xyz'' [] unpack_init ''@3'' = Inl (IndexError ''tuple index out of range'')"
    by blast+
  with ex1 ex2 run more cb show ?thesis
    by simp
qed

text \<open>
  Claim C10. An optional \<^verbatim>\<open>@\<close> field whose text is blank takes the next callback without
  calling it: the index \<open>icall\<close> moves on, \<open>None\<close> is appended, the list of calls is
  unchanged, and with no callback left the field raises \<^verbatim>\<open>IndexError\<close>. In the example
  the second \<^verbatim>\<open>@\<close> field, the first that is not blank, is served by the second callback.
\<close>

theorem unpack_optional_blank_callback:
  "rstrip_char CHR ''?'' form = CHR ''@'' # w \<Longrightarrow> form_optional form \<Longrightarrow>
   int_str L w = Inr l \<Longrightarrow> strip (slice line (ipos st) (ipos st + l)) = [] \<Longrightarrow>
     unpack_field L line callargs st form =
       (if icall st < length callargs
        then Inr (st\<lparr>ipos := ipos st + l, vals := vals st @ [PNone], icall := icall st + 1\<rparr>)
        else Inl (IndexError ''tuple index out of range''))"
  by (simp add: unpack_field_parsed cast_table_simps)

theorem unpack_optional_blank_callback_witness:
  "rstrip_char CHR ''?'' ''@3?'' = CHR ''@'' # ''3'' \<and> form_optional ''@3?'' \<and>
   int_str py ''3'' = Inr 3 \<and>
   strip (slice ''   xyz'' (ipos unpack_init) (ipos unpack_init + 3)) = [] \<and>
   unpack_field py ''   xyz'' [\<lambda>s. Inr (PStr (''1'' @ s)), \<lambda>s. Inr (PStr (''2'' @ s))]
       unpack_init ''@3?''
     = Inr \<lparr>ipos = 3, vals = [PNone], icall = 1, invoked = []\<rparr> \<and>
   unpack_field py ''   xyz'' [] unpack_init ''@3?''
     = Inl (IndexError ''tuple index out of range'') \<and>
   unpack_loop py ''   xyz'' [\<lambda>s. Inr (PStr (''1'' @ s)), \<lambda>s. Inr (PStr (''2'' @ s))]
       unpack_init [''@3?'', ''@3'']
     = Inr \<lparr>ipos = 6, vals = [PNone, PStr ''2xyz''], icall = 2, invoked = [1]\<rparr> \<and>
   unpack_fixed py ''@3?,@3'' ''   xyz'' [\<lambda>s. Inr (PStr (''1'' @ s))]
     = Inl (IndexError ''tuple index out of range'')"
proof -
  let ?f = "\<lambda>s. Inr (PStr (''1'' @ s)) :: error + pyval"
  let ?g = "\<lambda>s. Inr (PStr (''2'' @ s)) :: error + pyval"
  have h1: "rstrip_char CHR ''?'' ''@3?'' = CHR ''@'' # ''3''" by code_simp
  have h2: "form_optional ''@3?''" by code_simp
  have h3: "int_str py ''3'' = Inr 3" by code_simp
  have h4: "strip (slice ''   xyz'' (ipos unpack_init) (ipos unpack_init + 3)) = []" by code_simp
  have loop: "unpack_loop py ''   xyz'' [?f, ?g] unpack_init [''@3?'', ''@3'']
      = Inr \<lparr>ipos = 6, vals = [PNone, PStr ''2xyz''], icall = 2, invoked = [1]\<rparr>"
    by code_simp
  have short: "unpack_fixed py ''@3?,@3'' ''   xyz'' [?f]
      = Inl (IndexError ''tuple index out of range'')"
    by code_simp
  from unpack_optional_blank_callback [OF h1 h2 h3 h4, of "[?f, ?g]"]
    unpack_optional_blank_callback [OF h1 h2 h3 h4, of "[]"]
  have "unpack_field py ''   xyz'' [?f, ?g] unpack_init ''@3?''
      = Inr \<lparr>ipos = 3, vals = [PNone], icall = 1, invoked = []\<rparr>"
    and "unpack_field py ''   xyz'' [] unpack_init ''@3?''
      = Inl (IndexError ''tuple index out of range'')"
    by (simp_all add: unpack_init_def)
  with h1 h2 h3 h4 loop short show ?thesis
    by simp
qed

text \<open>
  Claim C3. When the conversion of a field that is not blank and optional raises, the
  exception built by \<^verbatim>\<open>unpack_fixed\<close> names the range from \<open>ipos\<close> to \<open>ipos + 1\<close>, one
  character whatever the declared width, and not the range of the field, which ends at
  \<open>ipos + l\<close>. In the example the field \<^verbatim>\<open>i3\<close> covers the characters 2 to 5 of the line and
  the exception names 2 to 3.
\<close>

theorem unpack_field_invalid_cast:
  assumes "rstrip_char CHR ''?'' form = typ # w" and "int_str L w = Inr l"
    and "s = slice line (ipos st) (ipos st + l)"
    and "\<not> (form_optional form \<and> strip s = [])"
    and "typ = CHR ''i'' \<and> int_str L s = Inl e
         \<or> typ = CHR ''f'' \<and> float_str L s = Inl e
         \<or> typ = CHR ''@'' \<and> icall st < length callargs \<and> (callargs ! icall st) s = Inl e"
  shows "unpack_field L line callargs st form
           = Inl (SeisanResponseFileError (ipos st) (ipos st + 1) line)"
  using assms(5)
proof (elim disjE conjE)
  assume "typ = CHR ''i''" and "int_str L s = Inl e"
  with assms(1-4) show ?thesis
    by (simp add: unpack_field_parsed cast_table_simps)
next
  assume "typ = CHR ''f''" and "float_str L s = Inl e"
  with assms(1-4) show ?thesis
    by (simp add: unpack_field_parsed cast_table_simps)
next
  assume "typ = CHR ''@''" and "icall st < length callargs" and "(callargs ! icall st) s = Inl e"
  with assms(1-4) show ?thesis
    by (simp add: unpack_field_parsed cast_table_simps)
qed

theorem unpack_field_invalid_cast_witness:
  "rstrip_char CHR ''?'' ''i3'' = CHR ''i'' # ''3'' \<and> int_str py ''3'' = Inr 3 \<and>
   ''abc'' = slice ''  abc'' 2 (2 + 3) \<and>
   \<not> (form_optional ''i3'' \<and> strip ''abc'' = []) \<and>
   int_str py ''abc'' = Inl ValueError \<and>
   unpack_field py ''  abc'' [] \<lparr>ipos = 2, vals = [], icall = 0, invoked = []\<rparr> ''i3''
     = Inl (SeisanResponseFileError 2 3 ''  abc'') \<and>
   unpack_fixed py ''x2,i3'' ''  abc'' [] = Inl (SeisanResponseFileError 2 3 ''  abc'') \<and>
   unpack_fixed py ''i3'' ''abc'' [] = Inl (SeisanResponseFileError 0 1 ''abc'')"
proof -
  let ?st = "\<lparr>ipos = 2, vals = [], icall = 0, invoked = []\<rparr>"
  have h1: "rstrip_char CHR ''?'' ''i3'' = CHR ''i'' # ''3''" by code_simp
  have h2: "int_str py ''3'' = Inr 3" by code_simp
  have h3: "''abc'' = slice ''  abc'' (ipos ?st) (ipos ?st + 3)" by code_simp
  have h4: "\<not> (form_optional ''i3'' \<and> strip ''abc'' = [])" by code_simp
  have h5: "int_str py ''abc'' = Inl ValueError" by code_simp
  have whole: "unpack_fixed py ''x2,i3'' ''  abc'' [] = Inl (SeisanResponseFileError 2 3 ''  abc'')"
    by code_simp
  have first: "unpack_fixed py ''i3'' ''abc'' [] = Inl (SeisanResponseFileError 0 1 ''abc'')"
    by code_simp
  from h5 have h5': "CHR ''i'' = CHR ''i'' \<and> int_str py ''abc'' = Inl ValueError
      \<or> CHR ''i'' = CHR ''f'' \<and> float_str py ''abc'' = Inl ValueError
      \<or> CHR ''i'' = CHR ''@'' \<and> icall ?st < length ([] :: callback list)
          \<and> (([] :: callback list) ! icall ?st) ''abc'' = Inl ValueError"
    by simp
  from unpack_field_invalid_cast [OF h1 h2 h3 h4 h5']
  have "unpack_field py ''  abc'' [] ?st ''i3'' = Inl (SeisanResponseFileError 2 3 ''  abc'')"
    by simp
  with h1 h2 h3 h4 h5 whole first show ?thesis
    by simp
qed

end
